theory Spec2Isabelle
  imports Complex_Main "HOL-Library.Multiset"
begin

section \<open>Data model\<close>

text \<open>
  The dashboard of \<^verbatim>\<open>app.py\<close> works on pandas tables whose cells are dynamically
  typed. A cell is missing (\<open>NaN\<close>, also standing for \<open>NaT\<close> and an empty spreadsheet
  cell), a number (finite; the infinities of floating point are left out), a text, a
  calendar date (\<^verbatim>\<open>datetime.date\<close>, as its day number), a time stamp
  (\<^verbatim>\<open>pd.Timestamp\<close>: day number and time of day in seconds) or a boolean. The
  characters of a text are the code points below 256.
\<close>

datatype cell = NaN | Num rat | Text string | Day int | Stamp int nat | Flag bool

text \<open>
  A column label of a sheet read by \<^verbatim>\<open>pd.read_excel\<close>: a string, a \<^verbatim>\<open>pd.Timestamp\<close>, a
  plain \<^verbatim>\<open>datetime.datetime\<close> (day number and time of day, like the time stamp), or anything
  else, of which only its identity matters. The reader takes a header cell that holds a
  date as a \<^verbatim>\<open>datetime.datetime\<close>; pandas makes time stamps of the labels only when all
  labels of the sheet are dates (a \<^verbatim>\<open>DatetimeIndex\<close>), and beside a text header the label
  stays a plain \<^verbatim>\<open>datetime.datetime\<close>. \<open>reader_frame\<close> records that.
\<close>

datatype label = LText string | LStamp int nat | LDatetime int nat | LOther nat

fun is_stamp :: "label \<Rightarrow> bool" where
  "is_stamp (LStamp d t) = True"
| "is_stamp _ = False"

text \<open>
  A wide sheet, column by column: every column holds one cell per entity row.
  pandas keeps the columns of a frame at one length and \<^verbatim>\<open>read_excel\<close> renames repeated
  headers, which \<open>wf_frame\<close> records.
\<close>

record frame =
  nrows :: nat
  cols :: "(label \<times> cell list) list"

definition wf_frame :: "frame \<Rightarrow> bool" where
  "wf_frame df = (distinct (map fst (cols df)) \<and> list_all (\<lambda>(c, vs). length vs = nrows df) (cols df))"

definition reader_frame :: "frame \<Rightarrow> bool" where
  "reader_frame df =
     (wf_frame df \<and> (list_all (\<lambda>(c, vs). is_stamp c) (cols df) \<or> list_all (\<lambda>(c, vs). \<not> is_stamp c) (cols df)))"

text \<open>
  A row of the canonical long table, with the six columns \<^verbatim>\<open>Sumber\<close>, \<^verbatim>\<open>Komoditi\<close>,
  \<^verbatim>\<open>Tingkat\<close>, \<^verbatim>\<open>Provinsi\<close>, \<^verbatim>\<open>Tanggal\<close>, \<^verbatim>\<open>Harga\<close>. The same shape with
  text fields is a record of the CSV file.
\<close>

record 'a obs =
  Sumber :: 'a
  Komoditi :: 'a
  Tingkat :: 'a
  Provinsi :: 'a
  Tanggal :: 'a
  Harga :: 'a

type_synonym row = "cell obs"

datatype error = SheetNotFound string | KeyError string | AttributeError | TypeError

section \<open>Merge and filter (\<^verbatim>\<open>main\<close>, tabs "Rekapan Tabular" and "Tren Harga Harian")\<close>

text \<open>\<^verbatim>\<open>combined = pd.concat([daily_data, input_data], ignore_index=True)\<close>\<close>

definition combined :: "row list \<Rightarrow> row list \<Rightarrow> row list" where
  "combined daily_data input_data = daily_data @ input_data"

text \<open>
  \<^verbatim>\<open>Series.isin(values)\<close> with the strings chosen in a \<^verbatim>\<open>multiselect\<close>: a text cell is
  in when it is one of them; a missing cell, a number or a date never equals a string.
\<close>

fun isin :: "string list \<Rightarrow> cell \<Rightarrow> bool" where
  "isin sel (Text s) = (s \<in> set sel)"
| "isin sel _ = False"

text \<open>
  \<^verbatim>\<open>filtered = combined[combined["Komoditi"].isin(kom_filter) & combined["Tingkat"].isin(ting_filter)
     & combined["Provinsi"].isin(prov_filter)]\<close>
\<close>

definition category_mask :: "string list \<Rightarrow> string list \<Rightarrow> string list \<Rightarrow> row \<Rightarrow> bool" where
  "category_mask kom ting prov r =
     (isin kom (Komoditi r) \<and> isin ting (Tingkat r) \<and> isin prov (Provinsi r))"

definition filtered :: "string list \<Rightarrow> string list \<Rightarrow> string list \<Rightarrow> row list \<Rightarrow> row list" where
  "filtered kom_filter ting_filter prov_filter comb =
     filter (category_mask kom_filter ting_filter prov_filter) comb"

text \<open>
  \<^verbatim>\<open>combined["Tanggal"] >= start_date\<close> on an object column: a date cell is compared, a
  missing cell compares false, and any other cell makes the comparison with a
  \<^verbatim>\<open>datetime.date\<close> raise \<^verbatim>\<open>TypeError\<close>.
\<close>

fun date_cmp :: "(int \<Rightarrow> bool) \<Rightarrow> cell \<Rightarrow> bool option" where
  "date_cmp p (Day d) = Some (p d)"
| "date_cmp p NaN = Some False"
| "date_cmp p _ = None"

fun column_cmp :: "(int \<Rightarrow> bool) \<Rightarrow> cell list \<Rightarrow> bool list option" where
  "column_cmp p [] = Some []"
| "column_cmp p (c # cs) =
     (case date_cmp p c of None \<Rightarrow> None
      | Some b \<Rightarrow> (case column_cmp p cs of None \<Rightarrow> None | Some bs \<Rightarrow> Some (b # bs)))"

text \<open>
  \<^verbatim>\<open>if isinstance(date_range, tuple) and len(date_range) == 2: start_date, end_date = date_range
  else: start_date = min_date; end_date = max_date\<close>
\<close>

fun resolve_range :: "int list \<Rightarrow> int \<Rightarrow> int \<Rightarrow> int \<times> int" where
  "resolve_range [a, b] min_date max_date = (a, b)"
| "resolve_range _ min_date max_date = (min_date, max_date)"

text \<open>
  \<^verbatim>\<open>plot_df = combined[isin & isin & isin & (combined["Tanggal"] >= start_date)
     & (combined["Tanggal"] <= end_date)].copy()\<close>: the five masks are computed on the
  whole column first, then the rows where all hold are kept.
\<close>

definition plot_df ::
  "string list \<Rightarrow> string list \<Rightarrow> string list \<Rightarrow> int \<Rightarrow> int \<Rightarrow> row list \<Rightarrow> error + row list" where
  "plot_df kom_plot ting_plot prov_plot start_date end_date comb =
     (case column_cmp (\<lambda>d. start_date \<le> d) (map Tanggal comb) of
        None \<Rightarrow> Inl TypeError
      | Some ge \<Rightarrow>
          (case column_cmp (\<lambda>d. d \<le> end_date) (map Tanggal comb) of
             None \<Rightarrow> Inl TypeError
           | Some le \<Rightarrow>
               Inr (map fst (filter (\<lambda>(r, g, l). category_mask kom_plot ting_plot prov_plot r \<and> g \<and> l)
                      (zip comb (zip ge le))))))"

text \<open>
  \<^verbatim>\<open>filtered.sort_values("Tanggal")\<close>: the call names no \<^verbatim>\<open>kind\<close>, so pandas sorts with its
  default \<^verbatim>\<open>quicksort\<close> (NumPy's introsort), which orders the keys and puts missing keys
  last (\<^verbatim>\<open>na_position="last"\<close>) but promises nothing about rows with equal keys. The
  model is therefore the contract of that call, a relation between the table and a
  displayed table: the same rows, in an order where the dates ascend. A key that is
  neither a date nor missing cannot be compared and the call raises; then no table is
  related.
\<close>

fun dated :: "cell \<Rightarrow> bool" where
  "dated (Day d) = True"
| "dated NaN = True"
| "dated _ = False"

fun key_le :: "cell \<Rightarrow> cell \<Rightarrow> bool" where
  "key_le (Day a) (Day b) = (a \<le> b)"
| "key_le _ NaN = True"
| "key_le _ _ = False"

definition sort_values :: "row list \<Rightarrow> row list \<Rightarrow> bool" where
  "sort_values xs ys =
     (list_all dated (map Tanggal xs) \<and> mset ys = mset xs \<and>
      sorted_wrt (\<lambda>a b. key_le (Tanggal a) (Tanggal b)) ys)"

text \<open>The table shown in "Rekapan Tabular": \<^verbatim>\<open>st.dataframe(filtered.sort_values("Tanggal"))\<close>.\<close>

definition rekap_display ::
  "string list \<Rightarrow> string list \<Rightarrow> string list \<Rightarrow> row list \<Rightarrow> row list \<Rightarrow> bool" where
  "rekap_display kom_filter ting_filter prov_filter comb shown =
     sort_values (filtered kom_filter ting_filter prov_filter comb) shown"

text \<open>
  The order the specification describes, for comparison: dates ascending, missing dates
  last, rows with equal dates in the order of the table (a stable insertion sort).
\<close>

fun stable_insert :: "row \<Rightarrow> row list \<Rightarrow> row list" where
  "stable_insert x [] = [x]"
| "stable_insert x (y # ys) =
     (if key_le (Tanggal x) (Tanggal y) then x # y # ys else y # stable_insert x ys)"

fun spec_stable_sort :: "row list \<Rightarrow> row list" where
  "spec_stable_sort [] = []"
| "spec_stable_sort (x # xs) = stable_insert x (spec_stable_sort xs)"

section \<open>Reference data loader (\<^verbatim>\<open>load_choice\<close>)\<close>

text \<open>A workbook gives the frame of a sheet name; \<^verbatim>\<open>read_excel\<close> raises on a missing sheet.\<close>

type_synonym workbook = "string \<Rightarrow> frame option"

definition read_excel :: "workbook \<Rightarrow> string \<Rightarrow> error + frame" where
  "read_excel wb s = (case wb s of None \<Rightarrow> Inl (SheetNotFound s) | Some df \<Rightarrow> Inr df)"

text \<open>\<^verbatim>\<open>df[name]\<close>: the column, or \<^verbatim>\<open>KeyError\<close>.\<close>

definition getitem :: "frame \<Rightarrow> string \<Rightarrow> error + cell list" where
  "getitem df name =
     (case map_of (cols df) (LText name) of None \<Rightarrow> Inl (KeyError name) | Some vs \<Rightarrow> Inr vs)"

definition dropna :: "cell list \<Rightarrow> cell list" where
  "dropna vs = filter (\<lambda>v. v \<noteq> NaN) vs"

text \<open>
  \<^verbatim>\<open>.astype(str)\<close>: a text stays as it is; for the other cells Python's \<^verbatim>\<open>str\<close> is the
  parameter \<open>str_of\<close>.
\<close>

definition astype_str :: "(cell \<Rightarrow> string) \<Rightarrow> cell \<Rightarrow> string" where
  "astype_str str_of v = (case v of Text s \<Rightarrow> s | _ \<Rightarrow> str_of v)"

text \<open>\<^verbatim>\<open>.unique()\<close>: the values in order of appearance, each kept the first time it is seen.\<close>

fun unique_from :: "'a list \<Rightarrow> 'a list \<Rightarrow> 'a list" where
  "unique_from seen [] = []"
| "unique_from seen (x # xs) =
     (if x \<in> set seen then unique_from seen xs else x # unique_from (x # seen) xs)"

definition unique :: "'a list \<Rightarrow> 'a list" where
  "unique xs = unique_from [] xs"

definition choices :: "(cell \<Rightarrow> string) \<Rightarrow> cell list \<Rightarrow> string list" where
  "choices str_of vs = unique (map (astype_str str_of) (dropna vs))"

definition load_choice ::
  "(cell \<Rightarrow> string) \<Rightarrow> workbook \<Rightarrow> error + (string list \<times> string list \<times> string list)" where
  "load_choice str_of wb =
     (case read_excel wb ''choice'' of Inl e \<Rightarrow> Inl e
      | Inr df \<Rightarrow>
     (case getitem df ''komoditi'' of Inl e \<Rightarrow> Inl e
      | Inr k \<Rightarrow>
     (case getitem df ''tingkatan'' of Inl e \<Rightarrow> Inl e
      | Inr t \<Rightarrow>
     (case getitem df ''Provinsi'' of Inl e \<Rightarrow> Inl e
      | Inr p \<Rightarrow> Inr (choices str_of k, choices str_of t, choices str_of p)))))"

text \<open>
  The specification's words for a list of the reference set, against its source column:
  no value twice, the values are the strings of the cells that are not missing, and they
  stand in the order in which they first occur in the column. \<open>first_where P xs\<close> is the
  position of the first element of \<open>xs\<close> with \<open>P\<close> (the length of \<open>xs\<close> if there is none).
\<close>

definition first_where :: "('a \<Rightarrow> bool) \<Rightarrow> 'a list \<Rightarrow> nat" where
  "first_where P xs = length (takeWhile (\<lambda>y. \<not> P y) xs)"

definition spec_reference_list :: "(cell \<Rightarrow> string) \<Rightarrow> cell list \<Rightarrow> string list \<Rightarrow> bool" where
  "spec_reference_list str_of col xs =
     (distinct xs \<and> set xs = astype_str str_of ` {v. v \<in> set col \<and> v \<noteq> NaN} \<and>
      sorted_wrt (\<lambda>a b. first_where (\<lambda>v. v \<noteq> NaN \<and> astype_str str_of v = a) col
                       < first_where (\<lambda>v. v \<noteq> NaN \<and> astype_str str_of v = b) col) xs)"

section \<open>Historical series loader (\<^verbatim>\<open>load_daily_data\<close>)\<close>

text \<open>\<^verbatim>\<open>date_cols = [c for c in df.columns if isinstance(c, pd.Timestamp)]\<close>, with their cells.\<close>

fun date_cols_of :: "(label \<times> cell list) list \<Rightarrow> ((int \<times> nat) \<times> cell list) list" where
  "date_cols_of [] = []"
| "date_cols_of ((LStamp d t, vs) # cs) = ((d, t), vs) # date_cols_of cs"
| "date_cols_of (_ # cs) = date_cols_of cs"

definition date_cols :: "frame \<Rightarrow> ((int \<times> nat) \<times> cell list) list" where
  "date_cols df = date_cols_of (cols df)"

text \<open>
  \<^verbatim>\<open>base_cols = [c for c in [" ", "Komoditi", "Tingkat", "Prov/Kab/Kota"] if c in df.columns]\<close>:
  a metadata column the sheet lacks is left out of the reshaped sheet. When the sheets
  are concatenated, and again when the result is concatenated with the user's table,
  \<^verbatim>\<open>pd.concat\<close> fills a column that a part lacks with missing cells; the fixed row
  record shows it that way from the start.
\<close>

definition id_col :: "frame \<Rightarrow> string \<Rightarrow> cell list" where
  "id_col df name =
     (case map_of (cols df) (LText name) of None \<Rightarrow> replicate (nrows df) NaN | Some vs \<Rightarrow> vs)"

text \<open>
  \<^verbatim>\<open>df[base_cols + date_cols].melt(id_vars=base_cols, var_name="Tanggal", value_name="Harga")\<close>:
  for each date column in turn, one row per entity row, carrying the entity's metadata,
  the column's time stamp and the cell. The fields \<open>Sumber\<close> and \<open>Provinsi\<close> hold the
  columns \<^verbatim>\<open>" "\<close> and \<^verbatim>\<open>"Prov/Kab/Kota"\<close>, which the loader renames so at its end.
\<close>

definition melt :: "frame \<Rightarrow> row list" where
  "melt df =
     concat (map (\<lambda>((d, t), vs).
        map (\<lambda>i. \<lparr>Sumber = id_col df '' '' ! i, Komoditi = id_col df ''Komoditi'' ! i,
                  Tingkat = id_col df ''Tingkat'' ! i, Provinsi = id_col df ''Prov/Kab/Kota'' ! i,
                  Tanggal = Stamp d t, Harga = vs ! i\<rparr>) [0..<nrows df])
        (date_cols df))"

text \<open>The loop over \<^verbatim>\<open>sheets\<close>, appending each reshaped sheet to \<^verbatim>\<open>frames\<close>.\<close>

fun melt_sheets :: "workbook \<Rightarrow> string list \<Rightarrow> error + row list list" where
  "melt_sheets wb [] = Inr []"
| "melt_sheets wb (s # ss) =
     (case read_excel wb s of Inl e \<Rightarrow> Inl e
      | Inr df \<Rightarrow> (case melt_sheets wb ss of Inl e \<Rightarrow> Inl e | Inr fs \<Rightarrow> Inr (melt df # fs)))"

text \<open>\<^verbatim>\<open>out.dropna(subset=["Harga"])\<close>\<close>

definition dropna_Harga :: "row list \<Rightarrow> row list" where
  "dropna_Harga out = filter (\<lambda>r. Harga r \<noteq> NaN) out"

text \<open>
  \<^verbatim>\<open>pd.to_numeric(..., errors="coerce")\<close> on one cell: a number stays, a text becomes the
  number pandas reads in it (the parameter \<open>coerce\<close>, \<open>None\<close> when it reads none), a
  boolean counts as the number 1 or 0 (where the whole column is boolean pandas keeps the
  booleans, which Python counts as these numbers), and everything else becomes missing.
\<close>

fun to_numeric :: "(string \<Rightarrow> rat option) \<Rightarrow> cell \<Rightarrow> cell" where
  "to_numeric coerce (Num x) = Num x"
| "to_numeric coerce (Text s) = (case coerce s of None \<Rightarrow> NaN | Some x \<Rightarrow> Num x)"
| "to_numeric coerce (Flag b) = Num (if b then 1 else 0)"
| "to_numeric coerce _ = NaN"

text \<open>\<^verbatim>\<open>.dt.date\<close>: the calendar date of a time stamp; a missing stamp stays missing.\<close>

fun dt_date :: "cell \<Rightarrow> cell" where
  "dt_date (Stamp d t) = Day d"
| "dt_date v = v"

definition load_daily_data :: "(string \<Rightarrow> rat option) \<Rightarrow> workbook \<Rightarrow> error + row list" where
  "load_daily_data coerce wb =
     (case melt_sheets wb [''jan26'', ''feb26''] of Inl e \<Rightarrow> Inl e
      | Inr frames \<Rightarrow>
          (let out = concat frames;
               out = dropna_Harga out;
               out = map (\<lambda>r. r\<lparr>Harga := to_numeric coerce (Harga r)\<rparr>) out;
               out = dropna_Harga out;
               out = map (\<lambda>r. r\<lparr>Tanggal := dt_date (Tanggal r)\<rparr>) out
           in Inr out))"


text \<open>
  The specification's words for the date columns of a sheet: the columns whose label is a
  calendar date, whichever of the two types the reader gave it.
\<close>

fun spec_date_columns :: "(label \<times> cell list) list \<Rightarrow> (label \<times> cell list) list" where
  "spec_date_columns [] = []"
| "spec_date_columns ((LStamp d t, vs) # cs) = (LStamp d t, vs) # spec_date_columns cs"
| "spec_date_columns ((LDatetime d t, vs) # cs) = (LDatetime d t, vs) # spec_date_columns cs"
| "spec_date_columns (_ # cs) = spec_date_columns cs"

section \<open>User input store (\<^verbatim>\<open>load_input_data\<close>, \<^verbatim>\<open>append_input_row\<close>)\<close>

text \<open>
  The backing file \<^verbatim>\<open>data_input.csv\<close> is absent, or holds the header of the six
  canonical columns and one record of six text fields per row (quoting and line ends are
  the CSV library's and are not modelled; a file of another shape, which only an edit
  from outside can produce, is not a state of the model).
\<close>

type_synonym csv_file = "string obs list option"

text \<open>
  The text conversions of the libraries are parameters: how \<^verbatim>\<open>to_csv\<close> writes a number,
  a date and a time stamp, how \<^verbatim>\<open>read_csv\<close> reads a date field (\<^verbatim>\<open>parse_dates\<close>), and
  which number it reads in the text of a field (\<open>None\<close> when it reads none).
\<close>

record codec =
  show_num :: "rat \<Rightarrow> string"
  show_day :: "int \<Rightarrow> string"
  show_stamp :: "int \<Rightarrow> nat \<Rightarrow> string"
  parse_stamp :: "string \<Rightarrow> (int \<times> nat) option"
  read_num :: "string \<Rightarrow> rat option"

text \<open>
  \<^verbatim>\<open>df.to_csv(INPUT_CSV, index=False)\<close>: a missing cell is written as the empty field
  (\<^verbatim>\<open>na_rep=""\<close>), a text as itself and a boolean as \<^verbatim>\<open>True\<close> or \<^verbatim>\<open>False\<close>.
\<close>

fun field_text :: "codec \<Rightarrow> cell \<Rightarrow> string" where
  "field_text c NaN = []"
| "field_text c (Text s) = s"
| "field_text c (Num x) = show_num c x"
| "field_text c (Day d) = show_day c d"
| "field_text c (Stamp d t) = show_stamp c d t"
| "field_text c (Flag b) = (if b then ''True'' else ''False'')"

definition to_csv :: "codec \<Rightarrow> row list \<Rightarrow> string obs list" where
  "to_csv c df =
     map (\<lambda>r. \<lparr>Sumber = field_text c (Sumber r), Komoditi = field_text c (Komoditi r),
               Tingkat = field_text c (Tingkat r), Provinsi = field_text c (Provinsi r),
               Tanggal = field_text c (Tanggal r), Harga = field_text c (Harga r)\<rparr>) df"

text \<open>
  \<^verbatim>\<open>pd.read_csv\<close> is called with its defaults, so a field that is empty or one of the
  default missing-value markers is read as a missing cell, in every column.
\<close>

definition na_values :: "string list" where
  "na_values = [[], ''#N/A'', ''#N/A N/A'', ''#NA'', ''-1.#IND'', ''-1.#QNAN'', ''-NaN'', ''-nan'',
     ''1.#IND'', ''1.#QNAN'', ''<NA>'', ''N/A'', ''NA'', ''NULL'', ''NaN'', ''None'', ''n/a'', ''nan'',
     ''null'']"

definition is_na :: "string \<Rightarrow> bool" where
  "is_na s = (s \<in> set na_values)"

text \<open>
  The type inference of \<^verbatim>\<open>read_csv\<close> on the fields of a column that are not missing: when
  it reads a number in each of them the column is numeric; else, when each is one of the
  words for true and false, it is boolean; else every field stays the text it is.
\<close>

definition true_values :: "string list" where
  "true_values = [''True'', ''TRUE'', ''true'']"

definition false_values :: "string list" where
  "false_values = [''False'', ''FALSE'', ''false'']"

definition infer_types :: "codec \<Rightarrow> string list \<Rightarrow> cell list" where
  "infer_types c fs =
     (if list_all (\<lambda>s. read_num c s \<noteq> None) fs
      then map (\<lambda>s. case read_num c s of None \<Rightarrow> Text s | Some x \<Rightarrow> Num x) fs
      else if list_all (\<lambda>s. s \<in> set true_values \<or> s \<in> set false_values) fs
      then map (\<lambda>s. Flag (s \<in> set true_values)) fs
      else map Text fs)"

text \<open>
  A column is read by putting missing cells where the fields are missing and, at the
  other places, the cells the type inference gives for the remaining fields, in order.
\<close>

fun fill_na :: "string list \<Rightarrow> cell list \<Rightarrow> cell list" where
  "fill_na [] vs = []"
| "fill_na (s # ss) vs =
     (if is_na s then NaN # fill_na ss vs
      else (case vs of [] \<Rightarrow> Text s # fill_na ss [] | v # vs' \<Rightarrow> v # fill_na ss vs'))"

definition read_column :: "codec \<Rightarrow> string list \<Rightarrow> cell list" where
  "read_column c fs = fill_na fs (infer_types c (filter (\<lambda>s. \<not> is_na s) fs))"

text \<open>
  \<^verbatim>\<open>parse_dates=["Tanggal"]\<close>: a missing field is \<open>NaT\<close>, another field is parsed to a
  time stamp; when a field cannot be parsed the column stays text, and so does the column
  of a file without records.
\<close>

fun read_dates :: "codec \<Rightarrow> string list \<Rightarrow> cell list option" where
  "read_dates c [] = Some []"
| "read_dates c (s # ss) =
     (case (if is_na s then Some NaN else map_option (\<lambda>(d, t). Stamp d t) (parse_stamp c s)) of
        None \<Rightarrow> None
      | Some v \<Rightarrow> (case read_dates c ss of None \<Rightarrow> None | Some vs \<Rightarrow> Some (v # vs)))"

text \<open>
  \<^verbatim>\<open>df = pd.read_csv(INPUT_CSV, parse_dates=["Tanggal"]); df["Tanggal"] = df["Tanggal"].dt.date\<close>:
  \<^verbatim>\<open>.dt\<close> raises \<^verbatim>\<open>AttributeError\<close> on a column that is not of time stamps.
\<close>

definition read_csv_dt :: "codec \<Rightarrow> string obs list \<Rightarrow> error + row list" where
  "read_csv_dt c recs =
     (if recs = [] then Inl AttributeError
      else (case read_dates c (map Tanggal recs) of
        None \<Rightarrow> Inl AttributeError
      | Some ds \<Rightarrow>
          (let s = read_column c (map Sumber recs); k = read_column c (map Komoditi recs);
               t = read_column c (map Tingkat recs); p = read_column c (map Provinsi recs);
               h = read_column c (map Harga recs)
           in Inr (map (\<lambda>i. \<lparr>Sumber = s ! i, Komoditi = k ! i, Tingkat = t ! i, Provinsi = p ! i,
                             Tanggal = dt_date (ds ! i), Harga = h ! i\<rparr>) [0..<length recs]))))"

text \<open>
  \<^verbatim>\<open>if os.path.exists(INPUT_CSV): ... return df\<close>, else
  \<^verbatim>\<open>pd.DataFrame(columns=["Sumber", "Komoditi", "Tingkat", "Provinsi", "Tanggal", "Harga"])\<close>,
  the table of the six columns without rows.
\<close>

definition load_input_data :: "codec \<Rightarrow> csv_file \<Rightarrow> error + row list" where
  "load_input_data c file = (case file of None \<Rightarrow> Inr [] | Some recs \<Rightarrow> read_csv_dt c recs)"

text \<open>
  \<^verbatim>\<open>df = load_input_data(); df = pd.concat([df, pd.DataFrame([row])], ignore_index=True);
  df.to_csv(INPUT_CSV, index=False)\<close>: the result is the new state of the file, or the
  error of the read, which leaves the file as it was.
\<close>

definition append_input_row :: "codec \<Rightarrow> row \<Rightarrow> csv_file \<Rightarrow> error + csv_file" where
  "append_input_row c row file =
     (case load_input_data c file of Inl e \<Rightarrow> Inl e
      | Inr df \<Rightarrow> Inr (Some (to_csv c (df @ [row]))))"

section \<open>The input form (\<^verbatim>\<open>main\<close>, tab "Input Data")\<close>

text \<open>
  Python's \<^verbatim>\<open>str.strip()\<close> removes leading and trailing whitespace. Of the code points
  below 256, Python's whitespace is: 9 to 13 (tab, line feed, vertical tab, form feed,
  carriage return), 28 to 31 (the four separators), 32 (space), 133 (next line) and 160
  (no-break space).
\<close>

definition is_space :: "char \<Rightarrow> bool" where
  "is_space ch =
     (let n = (of_char ch :: nat)
      in (9 \<le> n \<and> n \<le> 13) \<or> (28 \<le> n \<and> n \<le> 32) \<or> n = 133 \<or> n = 160)"

definition strip :: "string \<Rightarrow> string" where
  "strip s = rev (dropWhile is_space (rev (dropWhile is_space s)))"

text \<open>
  The values of the widgets when the form is submitted. A \<^verbatim>\<open>selectbox\<close> gives one of
  its options, or \<^verbatim>\<open>None\<close> when it has none. The price comes from
  \<^verbatim>\<open>st.number_input("Harga", min_value=0.0, step=100.0, format="%.0f")\<close>, which gives no
  number below its \<^verbatim>\<open>min_value\<close>: the values the widgets can give are those with
  \<open>widget_values\<close>.
\<close>

record form =
  komoditi_val :: "string option"
  harga_val :: rat
  tingkat_val :: "string option"
  tanggal_val :: int
  provinsi_val :: "string option"
  sumber_val :: string


definition selected :: "string option \<Rightarrow> cell" where
  "selected v = (case v of None \<Rightarrow> NaN | Some s \<Rightarrow> Text s)"

text \<open>
  \<^verbatim>\<open>row = {"Sumber": sumber_val.strip(), "Komoditi": komoditi_val, "Tingkat": tingkat_val,
  "Provinsi": provinsi_val, "Tanggal": tanggal_val, "Harga": float(harga_val)}\<close>
\<close>

definition form_row :: "form \<Rightarrow> row" where
  "form_row f =
     \<lparr>Sumber = Text (strip (sumber_val f)), Komoditi = selected (komoditi_val f),
      Tingkat = selected (tingkat_val f), Provinsi = selected (provinsi_val f),
      Tanggal = Day (tanggal_val f), Harga = Num (harga_val f)\<rparr>"

text \<open>\<^verbatim>\<open>if submitted: row = ...; append_input_row(row)\<close>\<close>

definition submit :: "codec \<Rightarrow> form \<Rightarrow> csv_file \<Rightarrow> error + csv_file" where
  "submit c f file = append_input_row c (form_row f) file"

section \<open>Auxiliary notions for the properties\<close>

text \<open>Whether the date of a cell satisfies a condition; a cell without a date does not.\<close>

fun on_day :: "(int \<Rightarrow> bool) \<Rightarrow> cell \<Rightarrow> bool" where
  "on_day p (Day d) = p d"
| "on_day p _ = False"

text \<open>An observation of rice at retail level in Kalimantan Barat, for the examples.\<close>

definition beras :: "string \<Rightarrow> int \<Rightarrow> rat \<Rightarrow> row" where
  "beras src d x =
     \<lparr>Sumber = Text src, Komoditi = Text ''Beras'', Tingkat = Text ''Eceran'',
      Provinsi = Text ''Kalimantan Barat'', Tanggal = Day d, Harga = Num x\<rparr>"



text \<open>
  Example sheets as the reader returns them. The documented sheet has the four metadata
  columns and two date columns (days 10 and 11), its date labels plain
  \<^verbatim>\<open>datetime.datetime\<close> beside the text labels. The other two sheets have date columns
  only, so their labels are time stamps; one of them holds a negative price. The example
  reading of numbers in text knows the one text \<^verbatim>\<open>12500\<close>.
\<close>

definition documented_sheet :: frame where
  "documented_sheet = \<lparr>nrows = 2, cols =
     [(LText '' '', [Text ''SP2KP'', Text ''SP2KP'']),
      (LText ''Komoditi'', [Text ''Beras'', Text ''Gula'']),
      (LText ''Tingkat'', [Text ''Eceran'', Text ''Eceran'']),
      (LText ''Prov/Kab/Kota'', [Text ''Kalimantan Barat'', Text ''Kalimantan Barat'']),
      (LDatetime 10 0, [Num 15000, NaN]),
      (LDatetime 11 0, [Text ''12500'', Text ''-''])]\<rparr>"

definition stamp_sheet :: frame where
  "stamp_sheet = \<lparr>nrows = 2, cols =
     [(LStamp 10 0, [Num 15000, NaN]), (LStamp 11 0, [Text ''12500'', Text ''-''])]\<rparr>"


definition documented_book :: workbook where
  "documented_book s =
     (if s = ''jan26'' then Some documented_sheet
      else if s = ''feb26'' then Some documented_sheet else None)"



definition example_coerce :: "string \<Rightarrow> rat option" where
  "example_coerce s = (if s = ''12500'' then Some 12500 else None)"

text \<open>
  An example sheet of choices, with repeated values, blank cells and a number, and an
  example of Python's \<^verbatim>\<open>str\<close> that knows the number 1.
\<close>

definition choice_book :: workbook where
  "choice_book s =
     (if s = ''choice'' then Some \<lparr>nrows = 4, cols =
        [(LText ''komoditi'', [Text ''Beras'', NaN, Text ''Gula'', Text ''Beras'']),
         (LText ''tingkatan'', [Text ''Eceran'', Num 1, Text ''Eceran'', NaN]),
         (LText ''Provinsi'', [Text ''Kalimantan Barat'', NaN, NaN, NaN])]\<rparr>
      else None)"

definition example_str :: "cell \<Rightarrow> string" where
  "example_str v = ''1.0''"

text \<open>
  The table given to the chart in "Tren Harga Harian":
  \<^verbatim>\<open>if plot_df.empty: st.warning(...) else: px.line(plot_df.sort_values("Tanggal"), ...)\<close>.
\<close>

definition chart_display ::
  "string list \<Rightarrow> string list \<Rightarrow> string list \<Rightarrow> int \<Rightarrow> int \<Rightarrow> row list \<Rightarrow> row list \<Rightarrow> bool" where
  "chart_display kom_plot ting_plot prov_plot start_date end_date comb shown =
     (case plot_df kom_plot ting_plot prov_plot start_date end_date comb of
        Inl e \<Rightarrow> False
      | Inr df \<Rightarrow> df \<noteq> [] \<and> sort_values df shown)"

text \<open>
  Eighteen observations of one day, told apart by their price, and the same rows in an
  order that a quicksort partition leaves equal keys in (the rows between the first and
  the last two reversed).
\<close>

definition tied_rows :: "row list" where
  "tied_rows = map (\<lambda>i. beras ''SP2KP'' 5 (of_nat i)) [0, 1, 2, 3, 4, 5, 6, 7, 8, 9, 10, 11, 12, 13, 14, 15, 16, 17]"

definition tied_rows_shuffled :: "row list" where
  "tied_rows_shuffled = map (\<lambda>i. beras ''SP2KP'' 5 (of_nat i)) [0, 15, 14, 13, 12, 11, 10, 9, 8, 7, 6, 5, 4, 3, 2, 1, 16, 17]"






text \<open>
  Example conversions: the numbers 15000 and 16000 and the days 60 and 61 of the year
  (1 and 2 March 2026) are written as Python writes them and read back; the reader also
  sees the number 2024 in its text, and no number in any other text.
\<close>

definition example_codec :: codec where
  "example_codec =
     \<lparr>show_num = (\<lambda>x. if x = 15000 then ''15000.0'' else ''16000.0''),
      show_day = (\<lambda>d. if d = 60 then ''2026-03-01'' else ''2026-03-02''),
      show_stamp = (\<lambda>d t. ''2026-03-01 00:00:00''),
      parse_stamp = (\<lambda>s. if s = ''2026-03-01'' then Some (60, 0)
                          else if s = ''2026-03-02'' then Some (61, 0) else None),
      read_num = (\<lambda>s. if s = ''15000.0'' then Some 15000
                        else if s = ''16000.0'' then Some 16000
                        else if s = ''2024'' then Some 2024 else None)\<rparr>"

text \<open>
  The two rows of the specification's scenario, and forms: one that gives the first of
  them, with whitespace of several kinds around the source, and three whose source is
  blank, the text of a number, and a word for true.
\<close>

definition row_test :: row where
  "row_test = \<lparr>Sumber = Text ''Test'', Komoditi = Text ''Beras'', Tingkat = Text ''Eceran'',
     Provinsi = Text ''DKI Jakarta'', Tanggal = Day 60, Harga = Num 15000\<rparr>"

definition row_second :: row where
  "row_second = \<lparr>Sumber = Text ''SP2KP'', Komoditi = Text ''Beras'', Tingkat = Text ''Eceran'',
     Provinsi = Text ''DKI Jakarta'', Tanggal = Day 61, Harga = Num 16000\<rparr>"

definition form_with :: "string \<Rightarrow> form" where
  "form_with src = \<lparr>komoditi_val = Some ''Beras'', harga_val = 15000, tingkat_val = Some ''Eceran'',
     tanggal_val = 60, provinsi_val = Some ''DKI Jakarta'', sumber_val = src\<rparr>"

definition test_form :: form where
  "test_form = form_with ([CHR 0x09, CHR 0xA0] @ ''Test'' @ [CHR 0x85, CHR 0x20])"

definition spaced_form :: form where
  "spaced_form = form_with ([CHR 0x0A, CHR 0xA0] @ ''SP 2KP'' @ [CHR 0x1F, CHR 0x85])"

section \<open>Properties\<close>

subsection \<open>Merge and filter\<close>

lemma column_cmp_dated:
  "list_all dated cs \<Longrightarrow> column_cmp p cs = Some (map (on_day p) cs)"
proof (induction cs)
  case Nil
  then show ?case by simp
next
  case (Cons c cs)
  then show ?case by (cases c) simp_all
qed

lemma column_cmp_Some:
  "column_cmp p cs = Some bs \<Longrightarrow> list_all dated cs"
proof (induction cs arbitrary: bs)
  case Nil
  then show ?case by simp
next
  case (Cons c cs)
  then show ?case by (cases c) (auto split: option.splits)
qed

lemma zip_masks:
  "map fst (filter (\<lambda>(r, g, l). P r \<and> g \<and> l) (zip xs (zip (map f xs) (map h xs))))
     = filter (\<lambda>r. P r \<and> f r \<and> h r) xs"
  by (induction xs) auto

lemma plot_df_dated:
  assumes "list_all dated (map Tanggal comb)"
  shows "plot_df kom ting prov s e comb =
    Inr (filter (\<lambda>r. category_mask kom ting prov r \<and> on_day (\<lambda>d. s \<le> d) (Tanggal r)
                      \<and> on_day (\<lambda>d. d \<le> e) (Tanggal r)) comb)"
  unfolding plot_df_def column_cmp_dated [OF assms] map_map
  by (simp only: option.case zip_masks o_apply)

lemma plot_df_cases:
  "plot_df kom ting prov s e comb = Inl TypeError \<or> list_all dated (map Tanggal comb)"
  unfolding plot_df_def
  by (auto split: option.splits dest: column_cmp_Some)

text \<open>
  Claim C3. The combined view is the historical table followed by the user's table:
  every row of either is there as often as it occurs in the two together, nothing is
  dropped or merged, and the row count is the sum of the two counts.
\<close>

theorem combined_is_concatenation:
  "combined H U = H @ U \<and> length (combined H U) = length H + length U
   \<and> mset (combined H U) = mset H + mset U
   \<and> (\<forall>r. count (mset (combined H U)) r = count (mset H) r + count (mset U) r)"
  by (simp add: combined_def)

text \<open>
  Claim C4. When the selection on one of the three category axes is empty, the category
  filter of the table view keeps no row, whatever the other selections are; the filter of
  the chart view, which also compares dates, keeps no row either (or raises on a date
  column it cannot compare, and it does not when every date cell is a date or missing).
\<close>

theorem empty_selection_fails_closed:
  assumes "kom = [] \<or> ting = [] \<or> prov = []"
  shows "filtered kom ting prov comb = []
     \<and> (plot_df kom ting prov s e comb = Inr [] \<or> plot_df kom ting prov s e comb = Inl TypeError)
     \<and> (list_all dated (map Tanggal comb) \<longrightarrow> plot_df kom ting prov s e comb = Inr [])"
proof -
  have m: "\<not> category_mask kom ting prov r" for r
    using assms unfolding category_mask_def
    by (cases "Komoditi r"; cases "Tingkat r"; cases "Provinsi r") auto
  have 1: "filtered kom ting prov comb = []"
    unfolding filtered_def by (simp add: m)
  have 3: "list_all dated (map Tanggal comb) \<Longrightarrow> plot_df kom ting prov s e comb = Inr []"
    by (simp add: plot_df_dated m)
  have 2: "plot_df kom ting prov s e comb = Inr [] \<or> plot_df kom ting prov s e comb = Inl TypeError"
    using plot_df_cases [of kom ting prov s e comb] 3 by blast
  from 1 2 3 show ?thesis by blast
qed

theorem empty_selection_fails_closed_witness:
  "([] = [] \<or> [''Eceran''] = [] \<or> [''Kalimantan Barat''] = [])
   \<and> filtered [] [''Eceran''] [''Kalimantan Barat''] [beras ''SP2KP'' 3 15000, beras ''Test'' 4 15500] = []
   \<and> plot_df [] [''Eceran''] [''Kalimantan Barat''] 1 9 [beras ''SP2KP'' 3 15000, beras ''Test'' 4 15500] = Inr []"
  using empty_selection_fails_closed [of "[]" "[''Eceran'']" "[''Kalimantan Barat'']"
      "[beras ''SP2KP'' 3 15000, beras ''Test'' 4 15500]" 1 9]
  by (simp add: beras_def)

text \<open>
  Claim C5. On a table whose date cells are dates or missing, the chart filter returns a
  table, and a row that passes the category filter and is dated \<open>d\<close> is in it exactly when
  \<open>start \<le> d \<le> end\<close>: a row dated \<open>start\<close> or \<open>end\<close> is kept, a row dated outside is not.
\<close>

theorem date_filter_inclusive:
  assumes "list_all dated (map Tanggal comb)"
  shows "\<exists>out. plot_df kom ting prov s e comb = Inr out \<and>
    (\<forall>r d. r \<in> set comb \<and> Tanggal r = Day d \<and> category_mask kom ting prov r \<longrightarrow>
        (r \<in> set out \<longleftrightarrow> s \<le> d \<and> d \<le> e))"
  by (auto simp: plot_df_dated [OF assms])

theorem date_filter_inclusive_witness:
  "list_all dated (map Tanggal [beras ''a'' 1 10, beras ''b'' 3 11, beras ''c'' 5 12, beras ''d'' 6 13, beras ''e'' 0 14])
   \<and> plot_df [''Beras''] [''Eceran''] [''Kalimantan Barat''] 1 5
        [beras ''a'' 1 10, beras ''b'' 3 11, beras ''c'' 5 12, beras ''d'' 6 13, beras ''e'' 0 14]
      = Inr [beras ''a'' 1 10, beras ''b'' 3 11, beras ''c'' 5 12]"
proof -
  let ?comb = "[beras ''a'' 1 10, beras ''b'' 3 11, beras ''c'' 5 12, beras ''d'' 6 13, beras ''e'' 0 14]"
  have h: "list_all dated (map Tanggal ?comb)"
    by (simp add: beras_def)
  from date_filter_inclusive [OF h, of "[''Beras'']" "[''Eceran'']" "[''Kalimantan Barat'']" 1 5]
  have "\<exists>out. plot_df [''Beras''] [''Eceran''] [''Kalimantan Barat''] 1 5 ?comb = Inr out" by blast
  moreover have "plot_df [''Beras''] [''Eceran''] [''Kalimantan Barat''] 1 5 ?comb
      = Inr [beras ''a'' 1 10, beras ''b'' 3 11, beras ''c'' 5 12]"
    by (simp add: plot_df_def beras_def category_mask_def)
  ultimately show ?thesis using h by blast
qed

subsection \<open>Historical series loader\<close>

lemma length_melt: "length (melt df) = nrows df * length (date_cols df)"
proof -
  have "length (concat (map (\<lambda>((d, t), vs). map (f d t vs) [0..<n]) cs)) = n * length cs"
    for f :: "int \<Rightarrow> nat \<Rightarrow> cell list \<Rightarrow> nat \<Rightarrow> row" and n cs
    by (induction cs) (auto simp: length_concat)
  then show ?thesis unfolding melt_def .
qed

lemma date_cols_of_lengths:
  "list_all (\<lambda>(c, vs). length vs = n) cs \<Longrightarrow> list_all (\<lambda>(k, vs). length vs = n) (date_cols_of cs)"
  by (induction cs rule: date_cols_of.induct) auto

lemma Harga_melt:
  assumes "wf_frame df"
  shows "map Harga (melt df) = concat (map snd (date_cols df))"
proof -
  have "map Harga (concat (map (\<lambda>((d, t), vs).
          map (\<lambda>i. \<lparr>Sumber = a i, Komoditi = b i, Tingkat = e i, Provinsi = g i,
                    Tanggal = Stamp d t, Harga = vs ! i\<rparr>) [0..<n]) cs)) = concat (map snd cs)"
    if "list_all (\<lambda>(k, vs). length vs = n) cs"
    for a b e g :: "nat \<Rightarrow> cell" and n and cs :: "((int \<times> nat) \<times> cell list) list"
    using that
  proof (induction cs)
    case Nil
    then show ?case by simp
  next
    case (Cons x xs)
    obtain d t vs where x: "x = ((d, t), vs)" by (cases x) auto
    with Cons.prems have "length vs = n" by simp
    then have "map (\<lambda>i. vs ! i) [0..<n] = vs" using map_nth [of vs] by simp
    with Cons x show ?case by (simp add: comp_def)
  qed
  moreover have "list_all (\<lambda>(k, vs). length vs = nrows df) (date_cols df)"
    using assms unfolding wf_frame_def date_cols_def by (simp add: date_cols_of_lengths)
  ultimately show ?thesis unfolding melt_def by blast
qed







lemma reader_frame_documented: "reader_frame documented_sheet"
  by (simp add: reader_frame_def wf_frame_def documented_sheet_def)

lemma melt_documented: "melt documented_sheet = []"
  by (simp add: melt_def date_cols_def documented_sheet_def)



text \<open>
  Claim C1 fails on the code. The loader takes as date columns the columns whose label
  passes \<^verbatim>\<open>isinstance(c, pd.Timestamp)\<close>, under the comment "Identify date columns
  (datetime)". On a sheet of the documented layout, as the reader returns it, the labels
  of the two date columns are plain \<^verbatim>\<open>datetime.datetime\<close>: the test takes none of them, the
  sheet with two entity rows and two date columns is reshaped to no row instead of four,
  and the loader returns the empty table although three prices are present, two of which
  are numbers. (Where all labels of a sheet are time stamps the reshaped sheet has its
  entity rows times date columns.)
\<close>

theorem timestamp_test_misses_date_columns:
  "reader_frame documented_sheet
   \<and> nrows documented_sheet = 2
   \<and> length (spec_date_columns (cols documented_sheet)) = 2
   \<and> concat (map snd (spec_date_columns (cols documented_sheet)))
       = [Num 15000, NaN, Text ''12500'', Text ''-'']
   \<and> date_cols documented_sheet = []
   \<and> length (melt documented_sheet) = 0
   \<and> load_daily_data example_coerce documented_book = Inr []
   \<and> reader_frame stamp_sheet
   \<and> length (melt stamp_sheet) = nrows stamp_sheet * length (spec_date_columns (cols stamp_sheet))"
proof -
  have 1: "nrows documented_sheet = 2" "length (spec_date_columns (cols documented_sheet)) = 2"
    "concat (map snd (spec_date_columns (cols documented_sheet))) = [Num 15000, NaN, Text ''12500'', Text ''-'']"
    "date_cols documented_sheet = []"
    by (simp_all add: documented_sheet_def date_cols_def)
  have 2: "load_daily_data example_coerce documented_book = Inr []"
    unfolding load_daily_data_def
    by (simp add: read_excel_def documented_book_def melt_documented dropna_Harga_def)
  have 3: "reader_frame stamp_sheet"
    by (simp add: reader_frame_def wf_frame_def stamp_sheet_def)
  have 4: "length (melt stamp_sheet) = nrows stamp_sheet * length (spec_date_columns (cols stamp_sheet))"
    unfolding length_melt by (simp add: stamp_sheet_def date_cols_def)
  from 1 2 3 4 reader_frame_documented melt_documented show ?thesis by simp
qed





subsection \<open>Reference data loader\<close>

lemma set_unique_from: "set (unique_from seen xs) = set xs - set seen"
  by (induction xs arbitrary: seen) auto

lemma distinct_unique_from: "distinct (unique_from seen xs)"
  by (induction xs arbitrary: seen) (auto simp: set_unique_from)

lemma first_where_Cons:
  "first_where P (x # xs) = (if P x then 0 else Suc (first_where P xs))"
  by (simp add: first_where_def)

lemma unique_from_order:
  "sorted_wrt (\<lambda>a b. first_where (\<lambda>v. Q v \<and> f v = a) col < first_where (\<lambda>v. Q v \<and> f v = b) col)
     (unique_from seen (map f (filter Q col)))"
proof (induction col arbitrary: seen)
  case Nil
  then show ?case by simp
next
  case (Cons c cs)
  let ?R = "\<lambda>l a b. first_where (\<lambda>v. Q v \<and> f v = a) l < first_where (\<lambda>v. Q v \<and> f v = b) l"
  have shift: "sorted_wrt (?R (c # cs)) (unique_from s (map f (filter Q cs)))"
    if "Q c \<longrightarrow> f c \<in> set s" for s
  proof (rule sorted_wrt_mono_rel [OF _ Cons.IH [of s]])
    fix a b
    assume a: "a \<in> set (unique_from s (map f (filter Q cs)))"
      and b: "b \<in> set (unique_from s (map f (filter Q cs)))"
      and r: "?R cs a b"
    from a b have "a \<notin> set s" "b \<notin> set s" by (auto simp: set_unique_from)
    with that have "\<not> (Q c \<and> f c = a)" "\<not> (Q c \<and> f c = b)" by auto
    with r show "?R (c # cs) a b" by (simp add: first_where_Cons)
  qed
  show ?case
  proof (cases "Q c \<and> f c \<notin> set seen")
    case True
    have "?R (c # cs) (f c) b" if "b \<in> set (unique_from (f c # seen) (map f (filter Q cs)))" for b
    proof -
      from that have "b \<noteq> f c" by (auto simp: set_unique_from)
      with True show ?thesis by (auto simp: first_where_Cons)
    qed
    with True shift [of "f c # seen"] show ?thesis by simp
  next
    case False
    with shift [of seen] show ?thesis by auto
  qed
qed

lemma choices_reference_list: "spec_reference_list str_of col (choices str_of col)"
  unfolding spec_reference_list_def choices_def unique_def dropna_def
  using unique_from_order [of "\<lambda>v. v \<noteq> NaN" "astype_str str_of" col "[]"]
  by (auto simp: distinct_unique_from set_unique_from)

text \<open>
  Claim C9. When the sheet of choices and its three columns exist, the loader returns
  three lists of strings, each of them the strings of the cells of its column that are not
  missing, every value once, in the order of first occurrence in the column.
\<close>

theorem load_choice_reference_lists:
  assumes "wb ''choice'' = Some df"
    and "map_of (cols df) (LText ''komoditi'') = Some kc"
    and "map_of (cols df) (LText ''tingkatan'') = Some tc"
    and "map_of (cols df) (LText ''Provinsi'') = Some pc"
  shows "\<exists>k t p. load_choice str_of wb = Inr (k, t, p) \<and> spec_reference_list str_of kc k
     \<and> spec_reference_list str_of tc t \<and> spec_reference_list str_of pc p"
  using assms unfolding load_choice_def
  by (simp add: read_excel_def getitem_def choices_reference_list)

theorem load_choice_reference_lists_witness:
  "choice_book ''choice'' = Some \<lparr>nrows = 4, cols =
        [(LText ''komoditi'', [Text ''Beras'', NaN, Text ''Gula'', Text ''Beras'']),
         (LText ''tingkatan'', [Text ''Eceran'', Num 1, Text ''Eceran'', NaN]),
         (LText ''Provinsi'', [Text ''Kalimantan Barat'', NaN, NaN, NaN])]\<rparr>
   \<and> load_choice example_str choice_book
       = Inr ([''Beras'', ''Gula''], [''Eceran'', ''1.0''], [''Kalimantan Barat''])
   \<and> spec_reference_list example_str [Text ''Beras'', NaN, Text ''Gula'', Text ''Beras''] [''Beras'', ''Gula'']"
proof -
  let ?df = "\<lparr>nrows = 4, cols =
        [(LText ''komoditi'', [Text ''Beras'', NaN, Text ''Gula'', Text ''Beras'']),
         (LText ''tingkatan'', [Text ''Eceran'', Num 1, Text ''Eceran'', NaN]),
         (LText ''Provinsi'', [Text ''Kalimantan Barat'', NaN, NaN, NaN])]\<rparr>"
  have s: "choice_book ''choice'' = Some ?df"
    by (simp add: choice_book_def)
  have l: "load_choice example_str choice_book
       = Inr ([''Beras'', ''Gula''], [''Eceran'', ''1.0''], [''Kalimantan Barat''])"
    unfolding load_choice_def
    by (simp add: read_excel_def getitem_def choice_book_def choices_def unique_def dropna_def
        astype_str_def example_str_def)
  from s load_choice_reference_lists [of choice_book ?df "[Text ''Beras'', NaN, Text ''Gula'', Text ''Beras'']"
      "[Text ''Eceran'', Num 1, Text ''Eceran'', NaN]" "[Text ''Kalimantan Barat'', NaN, NaN, NaN]" example_str]
  have "\<exists>k t p. load_choice example_str choice_book = Inr (k, t, p)
     \<and> spec_reference_list example_str [Text ''Beras'', NaN, Text ''Gula'', Text ''Beras''] k"
    by auto
  with l have "spec_reference_list example_str [Text ''Beras'', NaN, Text ''Gula'', Text ''Beras''] [''Beras'', ''Gula'']"
    by simp
  with s l show ?thesis by simp
qed

subsection \<open>Display order\<close>

lemma key_le_total: "dated a \<Longrightarrow> dated b \<Longrightarrow> key_le a b \<or> key_le b a"
  by (cases a; cases b) auto

lemma key_le_trans: "key_le a b \<Longrightarrow> key_le b c \<Longrightarrow> key_le a c"
  by (cases a; cases b; cases c) auto

lemma mset_stable_insert: "mset (stable_insert x ys) = add_mset x (mset ys)"
  by (induction ys) auto

lemma set_stable_insert: "set (stable_insert x ys) = insert x (set ys)"
  by (induction ys) auto

lemma sorted_stable_insert:
  assumes "dated (Tanggal x)" and "list_all dated (map Tanggal ys)"
    and "sorted_wrt (\<lambda>a b. key_le (Tanggal a) (Tanggal b)) ys"
  shows "sorted_wrt (\<lambda>a b. key_le (Tanggal a) (Tanggal b)) (stable_insert x ys)"
  using assms
proof (induction ys)
  case Nil
  then show ?case by simp
next
  case (Cons y ys)
  show ?case
  proof (cases "key_le (Tanggal x) (Tanggal y)")
    case True
    with Cons.prems show ?thesis by (auto intro: key_le_trans)
  next
    case False
    with Cons.prems have "key_le (Tanggal y) (Tanggal x)"
      using key_le_total [of "Tanggal x" "Tanggal y"] by simp
    with False Cons show ?thesis by (auto simp: set_stable_insert)
  qed
qed

lemma mset_spec_stable_sort: "mset (spec_stable_sort xs) = mset xs"
  by (induction xs) (auto simp: mset_stable_insert)

lemma sorted_spec_stable_sort:
  "list_all dated (map Tanggal xs) \<Longrightarrow>
   sorted_wrt (\<lambda>a b. key_le (Tanggal a) (Tanggal b)) (spec_stable_sort xs)"
proof (induction xs)
  case Nil
  then show ?case by simp
next
  case (Cons x xs)
  have "set (spec_stable_sort xs) = set xs"
    using mset_spec_stable_sort [of xs] by (metis set_mset_mset)
  with Cons.prems have "list_all dated (map Tanggal (spec_stable_sort xs))"
    by (simp add: list_all_iff)
  with Cons show ?case by (simp add: sorted_stable_insert)
qed

lemma sort_values_stable: "list_all dated (map Tanggal xs) \<Longrightarrow> sort_values xs (spec_stable_sort xs)"
  unfolding sort_values_def by (simp add: mset_spec_stable_sort sorted_spec_stable_sort)

lemma sort_values_props:
  assumes "sort_values xs ys"
  shows "mset ys = mset xs" and "length ys = length xs" and "set ys = set xs"
    and "\<And>i j a b. i < j \<Longrightarrow> j < length ys \<Longrightarrow> Tanggal (ys ! i) = Day a \<Longrightarrow> Tanggal (ys ! j) = Day b \<Longrightarrow> a \<le> b"
    and "\<And>i j. i < j \<Longrightarrow> j < length ys \<Longrightarrow> Tanggal (ys ! i) = NaN \<Longrightarrow> Tanggal (ys ! j) = NaN"
proof -
  from assms have m: "mset ys = mset xs"
    and s: "sorted_wrt (\<lambda>a b. key_le (Tanggal a) (Tanggal b)) ys"
    unfolding sort_values_def by simp_all
  show "mset ys = mset xs" by (rule m)
  show "length ys = length xs" using m by (rule mset_eq_length)
  show "set ys = set xs" using m by (rule mset_eq_setD)
  have k: "key_le (Tanggal (ys ! i)) (Tanggal (ys ! j))" if "i < j" "j < length ys" for i j
    using s that by (simp add: sorted_wrt_iff_nth_less)
  show "a \<le> b" if "i < j" "j < length ys" "Tanggal (ys ! i) = Day a" "Tanggal (ys ! j) = Day b" for i j a b
    using k [OF that(1,2)] that(3,4) by simp
  show "Tanggal (ys ! j) = NaN" if "i < j" "j < length ys" "Tanggal (ys ! i) = NaN" for i j
    using k [OF that(1,2)] that(3) by (cases "Tanggal (ys ! j)") simp_all
qed

text \<open>
  Claim C7, as amended. On a filtered table whose date cells are dates or missing, the
  sort returns a table (the stable order is one it may return), and every table it may
  return, in the table view and in the chart view, holds the rows of the filtered table,
  each as often and with all six columns unchanged, with the dates ascending and the
  missing dates last. The order of rows with equal dates is not determined.
\<close>

theorem display_sorted_by_date:
  assumes "list_all dated (map Tanggal (filtered kom ting prov comb))"
  shows "rekap_display kom ting prov comb (spec_stable_sort (filtered kom ting prov comb))
    \<and> (\<forall>shown. rekap_display kom ting prov comb shown \<longrightarrow>
          mset shown = mset (filtered kom ting prov comb)
        \<and> length shown = length (filtered kom ting prov comb)
        \<and> (\<forall>i j a b. i < j \<and> j < length shown \<and> Tanggal (shown ! i) = Day a \<and> Tanggal (shown ! j) = Day b
              \<longrightarrow> a \<le> b)
        \<and> (\<forall>i j. i < j \<and> j < length shown \<and> Tanggal (shown ! i) = NaN \<longrightarrow> Tanggal (shown ! j) = NaN))
    \<and> (\<forall>shown df. plot_df kom ting prov s e comb = Inr df \<and> chart_display kom ting prov s e comb shown \<longrightarrow>
          mset shown = mset df
        \<and> (\<forall>i j a b. i < j \<and> j < length shown \<and> Tanggal (shown ! i) = Day a \<and> Tanggal (shown ! j) = Day b
              \<longrightarrow> a \<le> b))"
proof -
  have 1: "rekap_display kom ting prov comb (spec_stable_sort (filtered kom ting prov comb))"
    unfolding rekap_display_def using assms by (rule sort_values_stable)
  have 2: "mset shown = mset (filtered kom ting prov comb)
        \<and> length shown = length (filtered kom ting prov comb)
        \<and> (\<forall>i j a b. i < j \<and> j < length shown \<and> Tanggal (shown ! i) = Day a \<and> Tanggal (shown ! j) = Day b
              \<longrightarrow> a \<le> b)
        \<and> (\<forall>i j. i < j \<and> j < length shown \<and> Tanggal (shown ! i) = NaN \<longrightarrow> Tanggal (shown ! j) = NaN)"
    if "rekap_display kom ting prov comb shown" for shown
  proof -
    from that have sv: "sort_values (filtered kom ting prov comb) shown"
      unfolding rekap_display_def .
    show ?thesis
      using sort_values_props(1,2) [OF sv] sort_values_props(4) [OF sv] sort_values_props(5) [OF sv]
      by blast
  qed
  have 3: "mset shown = mset df
        \<and> (\<forall>i j a b. i < j \<and> j < length shown \<and> Tanggal (shown ! i) = Day a \<and> Tanggal (shown ! j) = Day b
              \<longrightarrow> a \<le> b)"
    if "plot_df kom ting prov s e comb = Inr df" "chart_display kom ting prov s e comb shown" for shown df
  proof -
    from that have sv: "sort_values df shown"
      unfolding chart_display_def by simp
    show ?thesis
      using sort_values_props(1) [OF sv] sort_values_props(4) [OF sv] by blast
  qed
  from 1 2 3 show ?thesis by blast
qed

theorem display_sorted_by_date_witness:
  "list_all dated (map Tanggal (filtered [''Beras''] [''Eceran''] [''Kalimantan Barat'']
       [beras ''a'' 7 15000, beras ''b'' 3 14000, (beras ''c'' 1 9000)\<lparr>Komoditi := Text ''Gula''\<rparr>, beras ''d'' 7 15100]))
   \<and> rekap_display [''Beras''] [''Eceran''] [''Kalimantan Barat'']
       [beras ''a'' 7 15000, beras ''b'' 3 14000, (beras ''c'' 1 9000)\<lparr>Komoditi := Text ''Gula''\<rparr>, beras ''d'' 7 15100]
       [beras ''b'' 3 14000, beras ''a'' 7 15000, beras ''d'' 7 15100]"
proof -
  let ?comb = "[beras ''a'' 7 15000, beras ''b'' 3 14000, (beras ''c'' 1 9000)\<lparr>Komoditi := Text ''Gula''\<rparr>, beras ''d'' 7 15100]"
  have f: "filtered [''Beras''] [''Eceran''] [''Kalimantan Barat''] ?comb
      = [beras ''a'' 7 15000, beras ''b'' 3 14000, beras ''d'' 7 15100]"
    by (simp add: filtered_def category_mask_def beras_def)
  have h: "list_all dated (map Tanggal (filtered [''Beras''] [''Eceran''] [''Kalimantan Barat''] ?comb))"
    unfolding f by (simp add: beras_def)
  have s: "spec_stable_sort [beras ''a'' 7 15000, beras ''b'' 3 14000, beras ''d'' 7 15100]
      = [beras ''b'' 3 14000, beras ''a'' 7 15000, beras ''d'' 7 15100]"
    by (simp add: beras_def)
  from display_sorted_by_date [OF h]
  have "rekap_display [''Beras''] [''Eceran''] [''Kalimantan Barat''] ?comb
      (spec_stable_sort (filtered [''Beras''] [''Eceran''] [''Kalimantan Barat''] ?comb))"
    by blast
  with h show ?thesis unfolding f s by simp
qed

text \<open>
  Claim C7 as stated fails: for eighteen rows of one day, the reordered table is one the
  sort may return, and in it rows with equal dates do not keep the order of the table,
  which is the order the stable sort of the specification gives.
\<close>

theorem unstable_order_counterexample:
  "rekap_display [''Beras''] [''Eceran''] [''Kalimantan Barat''] tied_rows tied_rows_shuffled
   \<and> spec_stable_sort (filtered [''Beras''] [''Eceran''] [''Kalimantan Barat''] tied_rows) = tied_rows
   \<and> tied_rows_shuffled \<noteq> tied_rows
   \<and> Tanggal (tied_rows ! 1) = Tanggal (tied_rows ! 15)
   \<and> tied_rows_shuffled ! 1 = tied_rows ! 15 \<and> tied_rows_shuffled ! 15 = tied_rows ! 1"
proof -
  have f: "filtered [''Beras''] [''Eceran''] [''Kalimantan Barat''] tied_rows = tied_rows"
    by (simp add: filtered_def category_mask_def beras_def tied_rows_def)
  have d: "list_all dated (map Tanggal tied_rows)"
    by (simp add: tied_rows_def beras_def)
  have m: "mset tied_rows_shuffled = mset tied_rows"
  proof -
    have "mset [0, 15, 14, 13, 12, 11, 10, 9, 8, 7, 6, 5, 4, 3, 2, 1, 16, 17 :: nat]
        = mset [0, 1, 2, 3, 4, 5, 6, 7, 8, 9, 10, 11, 12, 13, 14, 15, 16, 17]"
      by (simp add: add_mset_commute)
    then have "image_mset (\<lambda>i. beras ''SP2KP'' 5 (of_nat i)) (mset [0, 15, 14, 13, 12, 11, 10, 9, 8, 7, 6, 5, 4, 3, 2, 1, 16, 17 :: nat])
        = image_mset (\<lambda>i. beras ''SP2KP'' 5 (of_nat i)) (mset [0, 1, 2, 3, 4, 5, 6, 7, 8, 9, 10, 11, 12, 13, 14, 15, 16, 17])"
      by (rule arg_cong)
    then show ?thesis
      unfolding tied_rows_def tied_rows_shuffled_def mset_map .
  qed
  have t: "Tanggal r = Day 5" if "r \<in> set tied_rows_shuffled" for r
    using that by (auto simp: tied_rows_shuffled_def beras_def)
  have s: "sorted_wrt (\<lambda>a b. key_le (Tanggal a) (Tanggal b)) tied_rows_shuffled"
    by (simp add: sorted_wrt_iff_nth_less t)
  have 1: "rekap_display [''Beras''] [''Eceran''] [''Kalimantan Barat''] tied_rows tied_rows_shuffled"
    unfolding rekap_display_def f sort_values_def using d m s by simp
  have 2: "spec_stable_sort tied_rows = tied_rows"
    by (simp add: tied_rows_def beras_def)
  have 3: "tied_rows_shuffled ! 1 = tied_rows ! 15" "tied_rows_shuffled ! 15 = tied_rows ! 1"
    "Tanggal (tied_rows ! 1) = Tanggal (tied_rows ! 15)"
    by (simp_all add: tied_rows_def tied_rows_shuffled_def beras_def)
  have 4: "tied_rows_shuffled \<noteq> tied_rows"
    by (simp add: tied_rows_def tied_rows_shuffled_def beras_def)
  from 1 2 3 4 show ?thesis unfolding f by simp
qed

subsection \<open>The input form\<close>

lemma is_space_codes:
  "is_space ch \<longleftrightarrow> (of_char ch :: nat) \<in> set [9, 10, 11, 12, 13, 28, 29, 30, 31, 32, 133, 160]"
  unfolding is_space_def Let_def by (simp del: of_char_Char) arith

lemma spaces_example:
  "is_space (CHR 0x09)" "is_space (CHR 0x0A)" "is_space (CHR 0x1F)" "is_space (CHR 0x20)"
  "is_space (CHR 0x85)" "is_space (CHR 0xA0)"
  "\<not> is_space CHR ''T''" "\<not> is_space CHR ''t''" "\<not> is_space CHR ''S''" "\<not> is_space CHR ''P''"
  "\<not> is_space CHR ''2''" "\<not> is_space CHR ''4''" "\<not> is_space CHR ''e''"
  by (simp_all add: is_space_def)

lemma rev_split: "m = rev (dropWhile P (rev m)) @ rev (takeWhile P (rev m))"
proof -
  have "rev (rev m) = rev (takeWhile P (rev m) @ dropWhile P (rev m))"
    by (simp only: takeWhile_dropWhile_id)
  then show ?thesis
    by (simp only: rev_rev_ident rev_append)
qed

lemma strip_decompose:
  "\<exists>l r. s = l @ strip s @ r \<and> list_all is_space l \<and> list_all is_space r"
proof -
  let ?m = "dropWhile is_space s"
  have 1: "s = takeWhile is_space s @ ?m" by simp
  have 2: "?m = strip s @ rev (takeWhile is_space (rev ?m))"
    unfolding strip_def by (rule rev_split)
  have 3: "list_all is_space (takeWhile is_space s)"
    by (simp add: list_all_iff) (meson set_takeWhileD)
  have 4: "list_all is_space (rev (takeWhile is_space (rev ?m)))"
    by (simp add: list_all_iff) (meson set_takeWhileD)
  from 1 2 have "s = takeWhile is_space s @ strip s @ rev (takeWhile is_space (rev ?m))"
    by simp
  with 3 4 show ?thesis by blast
qed

lemma strip_ends:
  assumes "strip s \<noteq> []"
  shows "\<not> is_space (hd (strip s))" and "\<not> is_space (last (strip s))"
proof -
  let ?m = "dropWhile is_space s"
  let ?k = "dropWhile is_space (rev ?m)"
  from assms have k: "?k \<noteq> []" by (simp add: strip_def)
  then have "\<not> is_space (hd ?k)" by (rule hd_dropWhile)
  with k show "\<not> is_space (last (strip s))"
    by (simp add: strip_def last_rev)
  have m: "?m \<noteq> []"
  proof
    assume "?m = []"
    with k show False by (metis dropWhile.simps(1) rev.simps(1))
  qed
  then have hm: "\<not> is_space (hd ?m)" by (rule hd_dropWhile)
  have "?m = strip s @ rev (takeWhile is_space (rev ?m))"
    unfolding strip_def by (rule rev_split)
  with assms have "hd ?m = hd (strip s)" by (metis hd_append2)
  with hm show "\<not> is_space (hd (strip s))" by simp
qed

text \<open>
  Claim C10. The row built from the form has as its source the text of the input without
  its leading and trailing whitespace: what is cut off in front and behind consists of
  Python's whitespace characters (the code points 9 to 13, 28 to 32, 133 and 160) and
  what is kept neither begins nor ends with one of them. The five other fields are as
  selected and entered, the price as a number; on submit, when the store can be read, the
  file is rewritten as the stored rows followed by the record of that row.
\<close>

theorem form_row_stored:
  assumes "load_input_data c file = Inr old"
  shows "Sumber (form_row f) = Text (strip (sumber_val f))
    \<and> (\<exists>l r. sumber_val f = l @ strip (sumber_val f) @ r
          \<and> list_all (\<lambda>ch. (of_char ch :: nat) \<in> set [9, 10, 11, 12, 13, 28, 29, 30, 31, 32, 133, 160]) l
          \<and> list_all (\<lambda>ch. (of_char ch :: nat) \<in> set [9, 10, 11, 12, 13, 28, 29, 30, 31, 32, 133, 160]) r)
    \<and> (strip (sumber_val f) \<noteq> [] \<longrightarrow>
          (of_char (hd (strip (sumber_val f))) :: nat) \<notin> set [9, 10, 11, 12, 13, 28, 29, 30, 31, 32, 133, 160]
        \<and> (of_char (last (strip (sumber_val f))) :: nat) \<notin> set [9, 10, 11, 12, 13, 28, 29, 30, 31, 32, 133, 160])
    \<and> Komoditi (form_row f) = selected (komoditi_val f)
    \<and> Tingkat (form_row f) = selected (tingkat_val f)
    \<and> Provinsi (form_row f) = selected (provinsi_val f)
    \<and> Tanggal (form_row f) = Day (tanggal_val f)
    \<and> Harga (form_row f) = Num (harga_val f)
    \<and> submit c f file = Inr (Some (to_csv c old @
          [\<lparr>Sumber = strip (sumber_val f), Komoditi = field_text c (selected (komoditi_val f)),
            Tingkat = field_text c (selected (tingkat_val f)),
            Provinsi = field_text c (selected (provinsi_val f)),
            Tanggal = show_day c (tanggal_val f), Harga = show_num c (harga_val f)\<rparr>]))"
proof -
  have s: "submit c f file = Inr (Some (to_csv c old @
          [\<lparr>Sumber = strip (sumber_val f), Komoditi = field_text c (selected (komoditi_val f)),
            Tingkat = field_text c (selected (tingkat_val f)),
            Provinsi = field_text c (selected (provinsi_val f)),
            Tanggal = show_day c (tanggal_val f), Harga = show_num c (harga_val f)\<rparr>]))"
    unfolding submit_def append_input_row_def using assms
    by (simp add: to_csv_def form_row_def)
  have d: "\<exists>l r. sumber_val f = l @ strip (sumber_val f) @ r
          \<and> list_all (\<lambda>ch. (of_char ch :: nat) \<in> set [9, 10, 11, 12, 13, 28, 29, 30, 31, 32, 133, 160]) l
          \<and> list_all (\<lambda>ch. (of_char ch :: nat) \<in> set [9, 10, 11, 12, 13, 28, 29, 30, 31, 32, 133, 160]) r"
    using strip_decompose [of "sumber_val f"] unfolding is_space_codes .
  have e: "strip (sumber_val f) \<noteq> [] \<longrightarrow>
          (of_char (hd (strip (sumber_val f))) :: nat) \<notin> set [9, 10, 11, 12, 13, 28, 29, 30, 31, 32, 133, 160]
        \<and> (of_char (last (strip (sumber_val f))) :: nat) \<notin> set [9, 10, 11, 12, 13, 28, 29, 30, 31, 32, 133, 160]"
    using strip_ends [of "sumber_val f"] unfolding is_space_codes by blast
  have r: "Sumber (form_row f) = Text (strip (sumber_val f))"
    "Komoditi (form_row f) = selected (komoditi_val f)"
    "Tingkat (form_row f) = selected (tingkat_val f)"
    "Provinsi (form_row f) = selected (provinsi_val f)"
    "Tanggal (form_row f) = Day (tanggal_val f)"
    "Harga (form_row f) = Num (harga_val f)"
    by (simp_all add: form_row_def)
  from r d e s show ?thesis by blast
qed

lemma strip_examples:
  "strip ([CHR 0x09, CHR 0xA0] @ ''Test'' @ [CHR 0x85, CHR 0x20]) = ''Test''"
  "strip ([CHR 0x0A, CHR 0xA0] @ ''SP 2KP'' @ [CHR 0x1F, CHR 0x85]) = ''SP 2KP''"
  "strip ''  '' = []" "strip ''2024'' = ''2024''" "strip ''True'' = ''True''"
  by (simp_all add: strip_def spaces_example)

theorem form_row_stored_witness:
  "load_input_data example_codec None = Inr []
   \<and> form_row test_form = row_test
   \<and> Sumber (form_row spaced_form) = Text ''SP 2KP''
   \<and> submit example_codec test_form None =
       Inr (Some [\<lparr>Sumber = ''Test'', Komoditi = ''Beras'', Tingkat = ''Eceran'',
                   Provinsi = ''DKI Jakarta'', Tanggal = ''2026-03-01'', Harga = ''15000.0''\<rparr>])"
proof -
  have l: "load_input_data example_codec None = Inr []"
    by (simp add: load_input_data_def)
  have st: "strip (sumber_val test_form) = ''Test''"
    using strip_examples(1) by (simp add: test_form_def form_with_def)
  from form_row_stored [OF l, of test_form]
  have "submit example_codec test_form None = Inr (Some (to_csv example_codec [] @
          [\<lparr>Sumber = strip (sumber_val test_form),
            Komoditi = field_text example_codec (selected (komoditi_val test_form)),
            Tingkat = field_text example_codec (selected (tingkat_val test_form)),
            Provinsi = field_text example_codec (selected (provinsi_val test_form)),
            Tanggal = show_day example_codec (tanggal_val test_form),
            Harga = show_num example_codec (harga_val test_form)\<rparr>]))"
    by (elim conjE)
  then have a: "submit example_codec test_form None =
       Inr (Some [\<lparr>Sumber = ''Test'', Komoditi = ''Beras'', Tingkat = ''Eceran'',
                   Provinsi = ''DKI Jakarta'', Tanggal = ''2026-03-01'', Harga = ''15000.0''\<rparr>])"
    unfolding st by (simp add: to_csv_def test_form_def form_with_def selected_def example_codec_def)
  have b: "form_row test_form = row_test"
    using st by (simp add: form_row_def row_test_def test_form_def form_with_def selected_def)
  have c: "Sumber (form_row spaced_form) = Text ''SP 2KP''"
    using strip_examples(2) by (simp add: form_row_def spaced_form_def form_with_def)
  from l b c a show ?thesis by (intro conjI)
qed

subsection \<open>User input store\<close>


lemma length_fill_na: "length (fill_na fs vs) = length fs"
  by (induction fs arbitrary: vs) (auto split: list.splits)

lemma length_read_column: "length (read_column c fs) = length fs"
  by (simp add: read_column_def length_fill_na)










lemma read_dates_parseable:
  "list_all (\<lambda>s. is_na s \<or> parse_stamp c s \<noteq> None) fs \<Longrightarrow>
   read_dates c fs = Some (map (\<lambda>s. if is_na s then NaN
       else Stamp (fst (the (parse_stamp c s))) (snd (the (parse_stamp c s)))) fs)"
  by (induction fs) auto








text \<open>
  Claim C8, as amended. Without a backing file the read returns, without failing, the
  table of the six canonical columns with no rows. With a file that holds at least one
  record and whose date fields are dates (or missing), it returns one row per record, in
  order, the five other columns as the reader reads them and the date column as calendar
  dates, the time of day discarded.
\<close>

theorem load_input_data_read:
  assumes "recs \<noteq> []"
    and "list_all (\<lambda>r. is_na (Tanggal r) \<or> parse_stamp c (Tanggal r) \<noteq> None) recs"
  shows "load_input_data c None = Inr []
    \<and> (\<exists>t. load_input_data c (Some recs) = Inr t \<and> length t = length recs
          \<and> map Sumber t = read_column c (map Sumber recs)
          \<and> map Komoditi t = read_column c (map Komoditi recs)
          \<and> map Tingkat t = read_column c (map Tingkat recs)
          \<and> map Provinsi t = read_column c (map Provinsi recs)
          \<and> map Harga t = read_column c (map Harga recs)
          \<and> map Tanggal t = map (\<lambda>r. if is_na (Tanggal r) then NaN
                                     else Day (fst (the (parse_stamp c (Tanggal r))))) recs
          \<and> list_all dated (map Tanggal t))"
proof -
  let ?ds = "map (\<lambda>s. if is_na s then NaN
       else Stamp (fst (the (parse_stamp c s))) (snd (the (parse_stamp c s)))) (map Tanggal recs)"
  let ?t = "map (\<lambda>i. \<lparr>Sumber = read_column c (map Sumber recs) ! i,
                      Komoditi = read_column c (map Komoditi recs) ! i,
                      Tingkat = read_column c (map Tingkat recs) ! i,
                      Provinsi = read_column c (map Provinsi recs) ! i,
                      Tanggal = dt_date (?ds ! i),
                      Harga = read_column c (map Harga recs) ! i\<rparr>) [0..<length recs]"
  from assms(2) have "list_all (\<lambda>s. is_na s \<or> parse_stamp c s \<noteq> None) (map Tanggal recs)"
    by (simp add: list_all_iff)
  then have rd: "read_dates c (map Tanggal recs) = Some ?ds"
    by (rule read_dates_parseable)
  have l: "load_input_data c (Some recs) = Inr ?t"
    unfolding load_input_data_def read_csv_dt_def using assms(1) rd by (simp add: Let_def)
  have cols: "map Sumber ?t = read_column c (map Sumber recs)"
    "map Komoditi ?t = read_column c (map Komoditi recs)"
    "map Tingkat ?t = read_column c (map Tingkat recs)"
    "map Provinsi ?t = read_column c (map Provinsi recs)"
    "map Harga ?t = read_column c (map Harga recs)"
    by (auto intro!: nth_equalityI simp: length_read_column)
  have dates: "map Tanggal ?t = map (\<lambda>r. if is_na (Tanggal r) then NaN
                                     else Day (fst (the (parse_stamp c (Tanggal r))))) recs"
    by (auto intro!: nth_equalityI)
  have "list_all dated (map Tanggal ?t)"
    unfolding dates by (auto simp: list_all_iff)
  with l cols dates show ?thesis
    by (simp add: load_input_data_def)
qed

lemma to_csv_scenario:
  "to_csv example_codec [row_test, row_second] =
     [\<lparr>Sumber = ''Test'', Komoditi = ''Beras'', Tingkat = ''Eceran'', Provinsi = ''DKI Jakarta'',
       Tanggal = ''2026-03-01'', Harga = ''15000.0''\<rparr>,
      \<lparr>Sumber = ''SP2KP'', Komoditi = ''Beras'', Tingkat = ''Eceran'', Provinsi = ''DKI Jakarta'',
       Tanggal = ''2026-03-02'', Harga = ''16000.0''\<rparr>]"
  by (simp add: to_csv_def row_test_def row_second_def example_codec_def)

theorem load_input_data_read_witness:
  "to_csv example_codec [row_test, row_second] \<noteq> []
   \<and> list_all (\<lambda>r. is_na (Tanggal r) \<or> parse_stamp example_codec (Tanggal r) \<noteq> None)
        (to_csv example_codec [row_test, row_second])
   \<and> load_input_data example_codec None = Inr []
   \<and> load_input_data example_codec (Some (to_csv example_codec [row_test, row_second]))
        = Inr [row_test, row_second]"
proof -
  let ?recs = "to_csv example_codec [row_test, row_second]"
  have a: "?recs \<noteq> []"
    unfolding to_csv_scenario by simp
  have b: "list_all (\<lambda>r. is_na (Tanggal r) \<or> parse_stamp example_codec (Tanggal r) \<noteq> None) ?recs"
    unfolding to_csv_scenario by (simp add: example_codec_def)
  from load_input_data_read [OF a b]
  have n: "load_input_data example_codec None = Inr []" by (elim conjE)
  have l: "load_input_data example_codec (Some ?recs) = Inr [row_test, row_second]"
    unfolding to_csv_scenario load_input_data_def read_csv_dt_def
    by (simp add: Let_def read_column_def infer_types_def is_na_def na_values_def true_values_def
        false_values_def example_codec_def upt_rec row_test_def row_second_def)
  from a b n l show ?thesis by (intro conjI)
qed

text \<open>
  Claim C8 as stated fails for a file that exists: when the file holds the header and no
  record, and when a date field of a record is no date, the date column is not one of
  time stamps and the read raises instead of returning the stored rows.
\<close>

theorem unreadable_file_counterexample:
  "load_input_data example_codec (Some []) = Inl AttributeError
   \<and> load_input_data example_codec
        (Some [\<lparr>Sumber = ''Test'', Komoditi = ''Beras'', Tingkat = ''Eceran'', Provinsi = ''DKI Jakarta'',
                Tanggal = ''kemarin'', Harga = ''15000.0''\<rparr>]) = Inl AttributeError"
  by (simp add: load_input_data_def read_csv_dt_def is_na_def na_values_def example_codec_def)





end
